theory Spec2Isabelle
  imports Main "HOL-Library.Sublist"
begin

section \<open>JavaScript values\<close>

text \<open>
  The tool-call arguments reach the server as a JSON object, typed
  \<^verbatim>\<open>Record<string, unknown>\<close> in the source. A value of type \<^verbatim>\<open>unknown\<close> is one
  of the JSON shapes. A string is kept as the list of the bytes of its UTF-8 encoding, so
  a character outside ASCII is two to four elements; where the code looks at characters
  (white space, line ends, decoding a chunk of output) the model looks at their
  encodings. Numbers are kept as integers, which is all the code below can observe of
  them (it only asks whether a value is a string or an array).
\<close>

datatype jsval =
    JNull
  | JBool bool
  | JNum int
  | JStr string
  | JArr "jsval list"
  | JObj "(string \<times> jsval) list"

text \<open>\<^verbatim>\<open>Array.isArray(value)\<close> and \<^verbatim>\<open>typeof value === "string"\<close>.\<close>

fun isArray :: "jsval \<Rightarrow> bool" where
  "isArray (JArr xs) = True"
| "isArray v = False"

fun isString :: "jsval \<Rightarrow> bool" where
  "isString (JStr s) = True"
| "isString v = False"

text \<open>\<^verbatim>\<open>[...value]\<close> for a value that passed \<^verbatim>\<open>Array.isArray\<close>.\<close>

fun spread :: "jsval \<Rightarrow> jsval list" where
  "spread (JArr xs) = xs"
| "spread v = []"

text \<open>\<^verbatim>\<open>Array.prototype.join\<close> on strings, used when an array is put in a template.\<close>

fun join :: "string \<Rightarrow> string list \<Rightarrow> string" where
  "join sep [] = []"
| "join sep [x] = x"
| "join sep (x # y # ys) = x @ sep @ join sep (y # ys)"

section \<open>The JSON dump's data model (structured variant)\<close>

text \<open>
  \<^verbatim>\<open>interface JustParameter { name: string; kind: "singular" | "star" | "plus";
  default: string | string[] | null; export: boolean; }\<close>
\<close>

datatype kind = Singular | Star | Plus

datatype jdefault = DNull | DStr string | DArr "string list"

record JustParameter =
  jp_name :: string
  jp_kind :: kind
  jp_default :: jdefault
  jp_export :: bool

text \<open>\<^verbatim>\<open>Array.isArray(param.default)\<close>.\<close>

fun isArrayDefault :: "jdefault \<Rightarrow> bool" where
  "isArrayDefault (DArr xs) = True"
| "isArrayDefault d = False"

text \<open>
  The condition \<^verbatim>\<open>param.default ? ... : ...\<close>: JavaScript's truthiness. \<^verbatim>\<open>null\<close> and
  the empty string are falsy; every other string and every array (the empty one too) is
  truthy.
\<close>

fun truthyDefault :: "jdefault \<Rightarrow> bool" where
  "truthyDefault DNull = False"
| "truthyDefault (DStr s) = (s \<noteq> [])"
| "truthyDefault (DArr xs) = True"

text \<open>\<^verbatim>\<open>${param.default}\<close> inside a template literal.\<close>

fun templateDefault :: "jdefault \<Rightarrow> string" where
  "templateDefault DNull = ''null''"
| "templateDefault (DStr s) = s"
| "templateDefault (DArr xs) = join '','' xs"

section \<open>Zod schemas\<close>

text \<open>
  One constructor for each builder call the source makes: \<^verbatim>\<open>z.string()\<close>,
  \<^verbatim>\<open>z.array(s)\<close>, \<^verbatim>\<open>.min(n)\<close>, \<^verbatim>\<open>.optional()\<close> and \<^verbatim>\<open>.describe(d)\<close>, so that a
  schema term reads like the source expression from the inside out.
\<close>

datatype zschema =
    ZString
  | ZArray zschema
  | ZMin zschema nat
  | ZOptional zschema
  | ZDescribe zschema string

text \<open>
  What the library does with a schema, after its documentation: which inputs a schema
  accepts (\<open>None\<close> is \<^verbatim>\<open>undefined\<close>, a key that is absent), when a field is optional
  (\<^verbatim>\<open>isOptional()\<close>: the schema accepts \<^verbatim>\<open>undefined\<close>), and the description it
  carries.
\<close>

fun zodAccepts :: "zschema \<Rightarrow> jsval option \<Rightarrow> bool" where
  "zodAccepts ZString v = (case v of Some (JStr s) \<Rightarrow> True | _ \<Rightarrow> False)"
| "zodAccepts (ZArray s) v =
     (case v of Some (JArr xs) \<Rightarrow> list_all (\<lambda>x. zodAccepts s (Some x)) xs | _ \<Rightarrow> False)"
| "zodAccepts (ZMin s n) v =
     (case v of Some (JArr xs) \<Rightarrow> n \<le> length xs \<and> zodAccepts s v | _ \<Rightarrow> False)"
| "zodAccepts (ZOptional s) v = (case v of None \<Rightarrow> True | Some x \<Rightarrow> zodAccepts s v)"
| "zodAccepts (ZDescribe s d) v = zodAccepts s v"

definition isOptional :: "zschema \<Rightarrow> bool" where
  "isOptional s = zodAccepts s None"

fun zodDescription :: "zschema \<Rightarrow> string option" where
  "zodDescription (ZDescribe s d) = Some d"
| "zodDescription s = None"

text \<open>The schema below the description: what \<^verbatim>\<open>.describe\<close> was called on.\<close>

fun zodShape :: "zschema \<Rightarrow> zschema" where
  "zodShape (ZDescribe s d) = zodShape s"
| "zodShape s = s"

section \<open>Schema synthesis: \<^verbatim>\<open>createParameterSchema\<close>\<close>

definition createParameterSchema :: "JustParameter \<Rightarrow> string \<Rightarrow> zschema" where
  "createParameterSchema param recipeName =
     (if isArrayDefault (jp_default param) then
        (if jp_kind param = Star \<or> jp_kind param = Plus
         then ZDescribe (ZOptional (ZArray ZString))
                (''Parameters for the '' @ recipeName @
                 '' recipe (default value is an expression in the Justfile)'')
         else ZDescribe (ZOptional ZString)
                (''Optional parameter '' @ jp_name param @ '' for the '' @ recipeName @
                 '' recipe (default value is an expression in the Justfile)''))
      else if jp_kind param = Star \<or> jp_kind param = Plus then
        (if jp_kind param = Plus
         then (if truthyDefault (jp_default param)
               then ZDescribe (ZOptional (ZArray ZString))
                      (''Parameters for the '' @ recipeName @ '' recipe (default: '' @
                       templateDefault (jp_default param) @ '')'')
               else ZDescribe (ZMin (ZArray ZString) 1)
                      (''Parameters for the '' @ recipeName @
                       '' recipe (at least one required)''))
         else ZDescribe (ZOptional (ZArray ZString))
                (''Parameters for the '' @ recipeName @ '' recipe (not required)''))
      else
        (if truthyDefault (jp_default param)
         then ZDescribe (ZOptional ZString)
                (''Optional parameter '' @ jp_name param @ '' (default: '' @
                 templateDefault (jp_default param) @ '')'')
         else ZDescribe ZString (''Required parameter '' @ jp_name param)))"

section \<open>Argument marshalling: \<^verbatim>\<open>processParameters\<close> (structured variant)\<close>

text \<open>
  The value map is given by its \<^verbatim>\<open>Object.entries\<close>, in that order; \<open>None\<close> is a
  \<^verbatim>\<open>null\<close> or \<^verbatim>\<open>undefined\<close> map, which the guard \<^verbatim>\<open>if (params)\<close> skips. The
  loop pushes onto \<^verbatim>\<open>args\<close>; an array is spread whatever its elements are, so the
  result is a list of JavaScript values.

  \<^verbatim>\<open>args.push(...value)\<close> passes the elements of the array as the arguments of one
  call. The engine bounds the number of arguments of a call by its stack: above the bound
  the call throws \<^verbatim>\<open>RangeError: Maximum call stack size exceeded\<close> and nothing is
  pushed. The bound is not fixed by the program; it is the parameter \<open>maxSpread\<close>. So
  the marshaller returns the arguments (\<open>Inr\<close>) or throws (\<open>Inl\<close>).
\<close>

datatype thrown = ThrownError string | ThrownOther string

definition spreadError :: thrown where
  "spreadError = ThrownError ''Maximum call stack size exceeded''"

fun processLoop ::
  "nat \<Rightarrow> JustParameter list \<Rightarrow> (string \<times> jsval) list \<Rightarrow> jsval list \<Rightarrow> thrown + jsval list" where
  "processLoop maxSpread parameters [] args = Inr args"
| "processLoop maxSpread parameters ((name, value) # rest) args =
     (case find (\<lambda>p. jp_name p = name) parameters of
        None \<Rightarrow> processLoop maxSpread parameters rest args
      | Some param \<Rightarrow>
          (if (jp_kind param = Star \<or> jp_kind param = Plus) \<and> isArray value
           then (if maxSpread < length (spread value) then Inl spreadError
                 else processLoop maxSpread parameters rest (args @ spread value))
           else if isString value
           then processLoop maxSpread parameters rest (args @ [value])
           else processLoop maxSpread parameters rest args))"

definition processParameters ::
  "nat \<Rightarrow> (string \<times> jsval) list option \<Rightarrow> JustParameter list \<Rightarrow> thrown + jsval list" where
  "processParameters maxSpread params parameters =
     (case params of None \<Rightarrow> Inr [] | Some entries \<Rightarrow> processLoop maxSpread parameters entries [])"

section \<open>Argument marshalling: \<^verbatim>\<open>processParameters\<close> of \<^verbatim>\<open>just.ts\<close> (text variant)\<close>

text \<open>\<^verbatim>\<open>interface TaskParameter { name: string; isVarArgs: boolean; }\<close>\<close>

record TaskParameter =
  tp_name :: string
  tp_isVarArgs :: bool

text \<open>
  \<^verbatim>\<open>param?.isVarArgs\<close>: \<^verbatim>\<open>undefined\<close>, which is falsy, when no parameter has the
  name.
\<close>

fun isVarArgsOpt :: "TaskParameter option \<Rightarrow> bool" where
  "isVarArgsOpt None = False"
| "isVarArgsOpt (Some param) = tp_isVarArgs param"

fun processLoop_text ::
  "nat \<Rightarrow> TaskParameter list \<Rightarrow> (string \<times> jsval) list \<Rightarrow> jsval list \<Rightarrow> thrown + jsval list" where
  "processLoop_text maxSpread parameters [] args = Inr args"
| "processLoop_text maxSpread parameters ((name, value) # rest) args =
     (if isVarArgsOpt (find (\<lambda>p. tp_name p = name) parameters) \<and> isArray value
      then (if maxSpread < length (spread value) then Inl spreadError
            else processLoop_text maxSpread parameters rest (args @ spread value))
      else if isString value
      then processLoop_text maxSpread parameters rest (args @ [value])
      else processLoop_text maxSpread parameters rest args)"

definition processParameters_text ::
  "nat \<Rightarrow> (string \<times> jsval) list \<Rightarrow> TaskParameter list \<Rightarrow> thrown + jsval list" where
  "processParameters_text maxSpread params parameters =
     processLoop_text maxSpread parameters params []"

section \<open>The flattened values of a value map\<close>

text \<open>
  What the specification calls the flattened values, in the map's own key order: a string
  contributes itself, a sequence contributes its elements in order.
\<close>

fun flatValue :: "jsval \<Rightarrow> jsval list" where
  "flatValue (JStr s) = [JStr s]"
| "flatValue (JArr xs) = xs"
| "flatValue v = []"

definition flattenValues :: "(string \<times> jsval) list \<Rightarrow> jsval list" where
  "flattenValues entries = concat (map (\<lambda>(name, value). flatValue value) entries)"

text \<open>
  A value has the shape of a parameter's schema: a string for a singular parameter, a
  sequence of strings for a star or plus parameter.
\<close>

fun isStringArray :: "jsval \<Rightarrow> bool" where
  "isStringArray (JArr xs) = list_all isString xs"
| "isStringArray v = False"

fun matchesKind :: "kind \<Rightarrow> jsval \<Rightarrow> bool" where
  "matchesKind Singular v = isString v"
| "matchesKind Star v = isStringArray v"
| "matchesKind Plus v = isStringArray v"

text \<open>
  An entry is well shaped for a parameter list when its key names a declared parameter
  and its value has the shape of every parameter of that name.
\<close>

definition wellShaped :: "JustParameter list \<Rightarrow> string \<times> jsval \<Rightarrow> bool" where
  "wellShaped parameters entry =
     (fst entry \<in> set (map jp_name parameters) \<and>
      list_all (\<lambda>p. matchesKind (jp_kind p) (snd entry))
        (filter (\<lambda>p. jp_name p = fst entry) parameters))"

definition wellShaped_text :: "TaskParameter list \<Rightarrow> string \<times> jsval \<Rightarrow> bool" where
  "wellShaped_text parameters entry =
     (fst entry \<in> set (map tp_name parameters) \<and>
      list_all (\<lambda>p. if tp_isVarArgs p then isStringArray (snd entry) else isString (snd entry))
        (filter (\<lambda>p. tp_name p = fst entry) parameters))"

text \<open>No sequence of the value map is longer than the engine lets a call spread.\<close>

definition withinSpread :: "nat \<Rightarrow> (string \<times> jsval) list \<Rightarrow> bool" where
  "withinSpread maxSpread entries =
     list_all (\<lambda>entry. length (spread (snd entry)) \<le> maxSpread) entries"

section \<open>Text: decoding bytes, decimal numerals\<close>

definition byte :: "char \<Rightarrow> nat" where
  "byte c = of_char c"

text \<open>
  \<^verbatim>\<open>new TextDecoder().decode(bytes)\<close>, after the Encoding Standard: the UTF-8 decoder
  with replacement. A well-formed sequence is kept; every ill-formed part, and a sequence
  that the end of the input cuts, becomes U+FFFD (\<open>replacement\<close>); the byte that ends an
  ill-formed part is read again as the start of the next. \<open>needed\<close> counts the
  continuation bytes still to come, \<open>lower\<close> and \<open>upper\<close> bound the next one, \<open>seen\<close>
  holds the bytes of the sequence read so far. A call without \<^verbatim>\<open>{stream: true}\<close>
  starts afresh and ends the input, and it removes a byte order mark at the start.
\<close>

definition replacement :: string where
  "replacement = [CHR 0xEF, CHR 0xBF, CHR 0xBD]"

definition byteOrderMark :: string where
  "byteOrderMark = [CHR 0xEF, CHR 0xBB, CHR 0xBF]"

fun utf8Decode :: "nat \<Rightarrow> nat \<Rightarrow> nat \<Rightarrow> string \<Rightarrow> string \<Rightarrow> string" where
  "utf8Decode needed lower upper seen [] = (if needed = 0 then [] else replacement)"
| "utf8Decode needed lower upper seen (b # bs) =
     (if needed \<noteq> 0 \<and> lower \<le> byte b \<and> byte b \<le> upper then
        (if needed = 1 then seen @ [b] @ utf8Decode 0 0x80 0xBF [] bs
         else utf8Decode (needed - 1) 0x80 0xBF (seen @ [b]) bs)
      else
        (if needed \<noteq> 0 then replacement else []) @
        (if byte b \<le> 0x7F then b # utf8Decode 0 0x80 0xBF [] bs
         else if 0xC2 \<le> byte b \<and> byte b \<le> 0xDF then utf8Decode 1 0x80 0xBF [b] bs
         else if 0xE0 \<le> byte b \<and> byte b \<le> 0xEF then
           utf8Decode 2 (if byte b = 0xE0 then 0xA0 else 0x80)
             (if byte b = 0xED then 0x9F else 0xBF) [b] bs
         else if 0xF0 \<le> byte b \<and> byte b \<le> 0xF4 then
           utf8Decode 3 (if byte b = 0xF0 then 0x90 else 0x80)
             (if byte b = 0xF4 then 0x8F else 0xBF) [b] bs
         else replacement @ utf8Decode 0 0x80 0xBF [] bs))"

definition textDecode :: "string \<Rightarrow> string" where
  "textDecode bytes =
     (if prefix byteOrderMark (utf8Decode 0 0x80 0xBF [] bytes)
      then drop 3 (utf8Decode 0 0x80 0xBF [] bytes)
      else utf8Decode 0 0x80 0xBF [] bytes)"

text \<open>\<^verbatim>\<open>${code}\<close>: a whole number in decimal.\<close>

definition digitChar :: "nat \<Rightarrow> char" where
  "digitChar d = ''0123456789'' ! d"

fun showNat :: "nat \<Rightarrow> string" where
  "showNat n = (if n < 10 then [digitChar n] else showNat (n div 10) @ [digitChar (n mod 10)])"

declare showNat.simps [simp del]

definition showInt :: "int \<Rightarrow> string" where
  "showInt i = (if i < 0 then ''-'' @ showNat (nat (- i)) else showNat (nat i))"

text \<open>
  What a decimal numeral is, said without \<open>showInt\<close>: digits only, no leading zero, read
  back as the number; for a negative number a minus sign before the numeral of its
  absolute value.
\<close>

definition isDigit :: "char \<Rightarrow> bool" where
  "isDigit c = (48 \<le> byte c \<and> byte c \<le> 57)"

definition readNat :: "string \<Rightarrow> nat" where
  "readNat s = foldl (\<lambda>a c. 10 * a + (byte c - 48)) 0 s"

definition isNumeral :: "string \<Rightarrow> bool" where
  "isNumeral s = (s \<noteq> [] \<and> list_all isDigit s \<and> (s = ''0'' \<or> take 1 s \<noteq> ''0''))"

definition decimalOf :: "int \<Rightarrow> string \<Rightarrow> bool" where
  "decimalOf i s =
     (if i < 0 then take 1 s = ''-'' \<and> isNumeral (drop 1 s) \<and> int (readNat (drop 1 s)) = - i
      else isNumeral s \<and> int (readNat s) = i)"

section \<open>Recipe execution\<close>

text \<open>
  The process-spawning facility is outside the program. It is a parameter of the model:
  a function from the \<^verbatim>\<open>Deno.Command\<close> that is built to what happens. Either
  \<^verbatim>\<open>spawn()\<close> throws, or a child runs: it delivers chunks of bytes on its two streams
  in some order of arrival and then exits with a status code. The two reading loops decode
  each chunk on its own and append the text to the one \<^verbatim>\<open>output\<close> variable as the
  chunk arrives, so the order of arrival is all the model keeps of their scheduling.
\<close>

text \<open>\<^verbatim>\<open>error instanceof Error ? error.message : String(error)\<close>\<close>

fun errorMessage :: "thrown \<Rightarrow> string" where
  "errorMessage (ThrownError message) = message"
| "errorMessage (ThrownOther rendering) = rendering"

datatype stream = Stdout | Stderr

record child =
  ch_chunks :: "(stream \<times> string) list"
  ch_code :: int

record command =
  cmd_program :: string
  cmd_args :: "jsval list"
  cmd_cwd :: string

type_synonym spawner = "command \<Rightarrow> thrown + child"

text \<open>The command string \<^verbatim>\<open>`just ${recipeName} "$@"`\<close>.\<close>

definition commandString :: "string \<Rightarrow> string" where
  "commandString recipeName = ''just '' @ recipeName @ [CHR '' '', CHR 0x22, CHR ''$'', CHR ''@'', CHR 0x22]"

text \<open>\<^verbatim>\<open>output += decoder.decode(chunk)\<close>, once for each chunk, in order of arrival.\<close>

definition drain :: "(stream \<times> string) list \<Rightarrow> string" where
  "drain chunks = foldl (\<lambda>output (s, chunk). output @ textDecode chunk) [] chunks"

definition exitLine :: "int \<Rightarrow> string" where
  "exitLine code = [CHR 0x0A] @ ''Process exited with code '' @ showInt code"

text \<open>
  \<^verbatim>\<open>executeRecipe\<close> of the structured variant. \<^verbatim>\<open>Deno.args\<close> and \<^verbatim>\<open>PROJECT\<close> are
  globals of the module, parameters here.
\<close>

definition recipeCommand :: "string list \<Rightarrow> string \<Rightarrow> string \<Rightarrow> jsval list \<Rightarrow> command" where
  "recipeCommand denoArgs project recipeName args =
     \<lparr>cmd_program = ''bash'',
      cmd_args = [JStr ''-l'', JStr ''-c'', JStr (commandString recipeName), JStr ''--'']
                 @ map JStr denoArgs @ args,
      cmd_cwd = project\<rparr>"

definition executeRecipe ::
  "spawner \<Rightarrow> string list \<Rightarrow> string \<Rightarrow> string \<Rightarrow> jsval list \<Rightarrow> thrown + string" where
  "executeRecipe spawn denoArgs project recipeName args =
     (case spawn (recipeCommand denoArgs project recipeName args) of
        Inl e \<Rightarrow> Inl e
      | Inr c \<Rightarrow> Inr (drain (ch_chunks c) @ exitLine (ch_code c)))"

text \<open>\<^verbatim>\<open>executeJustTask\<close> of \<^verbatim>\<open>just.ts\<close>.\<close>

definition taskCommand :: "string \<Rightarrow> string \<Rightarrow> jsval list \<Rightarrow> command" where
  "taskCommand project taskName args =
     \<lparr>cmd_program = ''bash'',
      cmd_args = [JStr ''-l'', JStr ''-c'', JStr (commandString taskName), JStr ''--''] @ args,
      cmd_cwd = project\<rparr>"

definition executeJustTask ::
  "spawner \<Rightarrow> string \<Rightarrow> string \<Rightarrow> jsval list \<Rightarrow> thrown + string" where
  "executeJustTask spawn project taskName args =
     (case spawn (taskCommand project taskName args) of
        Inl e \<Rightarrow> Inl e
      | Inr c \<Rightarrow> Inr (drain (ch_chunks c) @ exitLine (ch_code c)))"

text \<open>
  The \<^verbatim>\<open>execute\<close> closure of a tool: \<open>Inl\<close> is the message of the \<^verbatim>\<open>Error\<close> it
  throws, \<open>Inr\<close> the string it returns. The \<^verbatim>\<open>try\<close> block holds the marshalling and
  the execution, so the \<^verbatim>\<open>catch\<close> clause rewraps what either of them throws.
  \<^verbatim>\<open>recipe.parameters || []\<close> is the parameter list itself, which the interface
  declares as an array. The text variant declares its value map as an object, not
  \<^verbatim>\<open>null\<close>, so it takes the entries as they are.
\<close>

definition failedToExecute :: "string \<Rightarrow> thrown \<Rightarrow> string" where
  "failedToExecute recipeName e = ''Failed to execute '' @ recipeName @ '': '' @ errorMessage e"

definition execute ::
  "nat \<Rightarrow> spawner \<Rightarrow> string list \<Rightarrow> string \<Rightarrow> string \<Rightarrow> JustParameter list \<Rightarrow>
   (string \<times> jsval) list option \<Rightarrow> string + string" where
  "execute maxSpread spawn denoArgs project recipeName parameters params =
     (case processParameters maxSpread params parameters of
        Inl e \<Rightarrow> Inl (failedToExecute recipeName e)
      | Inr args \<Rightarrow>
          (case executeRecipe spawn denoArgs project recipeName args of
             Inl e \<Rightarrow> Inl (failedToExecute recipeName e)
           | Inr output \<Rightarrow> Inr output))"


section \<open>Reading the recipes (structured variant)\<close>

text \<open>
  \<^verbatim>\<open>interface JustRecipe\<close> of the dump. \<^verbatim>\<open>doc\<close> is a string or \<^verbatim>\<open>null\<close>.
\<close>

record JustRecipe =
  jr_name :: string
  jr_parameters :: "JustParameter list"
  jr_doc :: "string option"
  jr_body :: "string list list"
  jr_dependencies :: "string list"
  jr_private :: bool
  jr_quiet :: bool
  jr_shebang :: bool

text \<open>
  \<^verbatim>\<open>getJustRecipes\<close> runs \<^verbatim>\<open>just\<close> with the server's own command-line arguments
  first. Running the command and parsing its output as JSON are parameters; when either
  throws, the process exits with status 1 (\<open>Inl 1\<close>). The recipes come as the
  \<^verbatim>\<open>Object.entries\<close> of the dump's \<^verbatim>\<open>recipes\<close> object.
\<close>

definition dumpCommand :: "string list \<Rightarrow> string \<Rightarrow> command" where
  "dumpCommand denoArgs project =
     \<lparr>cmd_program = ''just'',
      cmd_args = map JStr denoArgs @ [JStr ''--dump'', JStr ''--dump-format'', JStr ''json''],
      cmd_cwd = project\<rparr>"

definition getJustRecipes ::
  "(command \<Rightarrow> thrown + string) \<Rightarrow> (string \<Rightarrow> thrown + (string \<times> JustRecipe) list) \<Rightarrow>
   string list \<Rightarrow> string \<Rightarrow> int + (string \<times> JustRecipe) list" where
  "getJustRecipes run parse denoArgs project =
     (case run (dumpCommand denoArgs project) of
        Inl e \<Rightarrow> Inl 1
      | Inr stdout \<Rightarrow> (case parse stdout of Inl e \<Rightarrow> Inl 1 | Inr recipes \<Rightarrow> Inr recipes))"

section \<open>JavaScript objects as ordered lists of entries\<close>

text \<open>
  An object lists its keys with the array indices first, in ascending order, and the other
  keys after them in the order they were created. An array index is the decimal numeral of
  a number below \<open>2\<^sup>3\<^sup>2 - 1\<close>. Setting a key that is there keeps its place and takes
  the new value; a new key goes to its place among the indices, or last.
  \<^verbatim>\<open>Object.fromEntries\<close> sets the pairs in order.
\<close>

definition arrayIndex :: "string \<Rightarrow> nat option" where
  "arrayIndex k = (if isNumeral k \<and> readNat k < 4294967295 then Some (readNat k) else None)"

fun objReplace :: "string \<Rightarrow> 'a \<Rightarrow> (string \<times> 'a) list \<Rightarrow> (string \<times> 'a) list" where
  "objReplace k v [] = []"
| "objReplace k v ((k', v') # rest) =
     (if k' = k then (k, v) # rest else (k', v') # objReplace k v rest)"

fun objInsertIndex :: "nat \<Rightarrow> string \<Rightarrow> 'a \<Rightarrow> (string \<times> 'a) list \<Rightarrow> (string \<times> 'a) list" where
  "objInsertIndex n k v [] = [(k, v)]"
| "objInsertIndex n k v ((k', v') # rest) =
     (case arrayIndex k' of
        None \<Rightarrow> (k, v) # (k', v') # rest
      | Some n' \<Rightarrow>
          (if n' < n then (k', v') # objInsertIndex n k v rest else (k, v) # (k', v') # rest))"

definition objSet :: "string \<Rightarrow> 'a \<Rightarrow> (string \<times> 'a) list \<Rightarrow> (string \<times> 'a) list" where
  "objSet k v obj =
     (if k \<in> set (map fst obj) then objReplace k v obj
      else (case arrayIndex k of
              None \<Rightarrow> obj @ [(k, v)]
            | Some n \<Rightarrow> objInsertIndex n k v obj))"

definition fromEntries :: "(string \<times> 'a) list \<Rightarrow> (string \<times> 'a) list" where
  "fromEntries pairs = foldl (\<lambda>obj (k, v). objSet k v obj) [] pairs"

section \<open>Registering the tools (structured variant)\<close>

record tool =
  tool_name :: string
  tool_description :: string
  tool_parameters :: "(string \<times> zschema) list"

text \<open>\<^verbatim>\<open>doc || fallback\<close>: \<^verbatim>\<open>null\<close> and the empty string are falsy.\<close>

fun docOr :: "string option \<Rightarrow> string \<Rightarrow> string" where
  "docOr None fallback = fallback"
| "docOr (Some d) fallback = (if d = [] then fallback else d)"

definition recipeTool :: "string \<Rightarrow> JustRecipe \<Rightarrow> tool" where
  "recipeTool recipeName recipe =
     \<lparr>tool_name = recipeName,
      tool_description = docOr (jr_doc recipe) (''Run the '' @ recipeName @ '' recipe''),
      tool_parameters =
        fromEntries (map (\<lambda>param. (jp_name param, createParameterSchema param recipeName))
                       (jr_parameters recipe))\<rparr>"


text \<open>
  The registration loop over \<^verbatim>\<open>Object.entries(recipes)\<close>: a recipe outside the
  allow-list is skipped; with \<^verbatim>\<open>SHOW_RECIPES\<close> set every recipe is printed and none is
  registered.
\<close>

fun notAllowed :: "string list option \<Rightarrow> string \<Rightarrow> bool" where
  "notAllowed None recipeName = False"
| "notAllowed (Some allowed) recipeName = (recipeName \<notin> set allowed)"

fun registerLoop ::
  "string list option \<Rightarrow> bool \<Rightarrow> (string \<times> JustRecipe) list \<Rightarrow> tool list \<Rightarrow> tool list" where
  "registerLoop allowed showRecipes [] tools = tools"
| "registerLoop allowed showRecipes ((recipeName, recipe) # rest) tools =
     (if notAllowed allowed recipeName then registerLoop allowed showRecipes rest tools
      else if showRecipes then registerLoop allowed showRecipes rest tools
      else registerLoop allowed showRecipes rest (tools @ [recipeTool recipeName recipe]))"


section \<open>White space, as \<^verbatim>\<open>\s\<close> and \<^verbatim>\<open>trim()\<close> see it\<close>

text \<open>
  The white space and line terminator characters of the language, each by its UTF-8
  encoding: U+0009 to U+000D, U+0020, U+00A0, U+1680, U+2000 to U+200A, U+2028, U+2029,
  U+202F, U+205F, U+3000 and U+FEFF.
\<close>

definition whiteSpaces :: "string list" where
  "whiteSpaces =
     [[CHR 0x09], [CHR 0x0A], [CHR 0x0B], [CHR 0x0C], [CHR 0x0D], [CHR 0x20],
      [CHR 0xC2, CHR 0xA0],
      [CHR 0xE1, CHR 0x9A, CHR 0x80],
      [CHR 0xE2, CHR 0x80, CHR 0x80], [CHR 0xE2, CHR 0x80, CHR 0x81],
      [CHR 0xE2, CHR 0x80, CHR 0x82], [CHR 0xE2, CHR 0x80, CHR 0x83],
      [CHR 0xE2, CHR 0x80, CHR 0x84], [CHR 0xE2, CHR 0x80, CHR 0x85],
      [CHR 0xE2, CHR 0x80, CHR 0x86], [CHR 0xE2, CHR 0x80, CHR 0x87],
      [CHR 0xE2, CHR 0x80, CHR 0x88], [CHR 0xE2, CHR 0x80, CHR 0x89],
      [CHR 0xE2, CHR 0x80, CHR 0x8A],
      [CHR 0xE2, CHR 0x80, CHR 0xA8], [CHR 0xE2, CHR 0x80, CHR 0xA9],
      [CHR 0xE2, CHR 0x80, CHR 0xAF],
      [CHR 0xE2, CHR 0x81, CHR 0x9F],
      [CHR 0xE3, CHR 0x80, CHR 0x80],
      [CHR 0xEF, CHR 0xBB, CHR 0xBF]]"

text \<open>The rest of a string after the white space character it starts with, if it does.\<close>

definition afterSpace :: "string \<Rightarrow> string option" where
  "afterSpace s =
     (case find (\<lambda>w. prefix w s) whiteSpaces of
        None \<Rightarrow> None
      | Some w \<Rightarrow> Some (drop (length w) s))"

lemma afterSpace_shorter: "afterSpace s = Some rest \<Longrightarrow> length rest < length s"
proof -
  assume a: "afterSpace s = Some rest"
  then obtain w where w: "find (\<lambda>w. prefix w s) whiteSpaces = Some w" and r: "rest = drop (length w) s"
    by (auto simp: afterSpace_def split: option.splits)
  from w have "w \<in> set whiteSpaces" and p: "prefix w s"
    by (auto simp: find_Some_iff)
  then have "w \<noteq> []"
    by (auto simp: whiteSpaces_def)
  with p r show ?thesis
    by (cases s) (auto simp: prefix_def)
qed

text \<open>\<^verbatim>\<open>\s*\<close> at the start of a string: all the white space it starts with is taken.\<close>

function dropSpaces :: "string \<Rightarrow> string" where
  "dropSpaces s = (case afterSpace s of None \<Rightarrow> s | Some rest \<Rightarrow> dropSpaces rest)"
  by pat_completeness auto
termination
  by (relation "measure length") (auto simp: afterSpace_shorter)

declare dropSpaces.simps [simp del]

lemma dropSpaces_shorter: "length (dropSpaces s) \<le> length s"
proof (induction s rule: dropSpaces.induct)
  case (1 s)
  show ?case
  proof (cases "afterSpace s")
    case None
    then show ?thesis
      by (simp add: dropSpaces.simps [of s])
  next
    case (Some rest)
    with "1" afterSpace_shorter [OF Some] show ?thesis
      by (simp add: dropSpaces.simps [of s])
  qed
qed

text \<open>\<^verbatim>\<open>trim()\<close>: the white space at both ends is removed.\<close>

fun trimEnd :: "string \<Rightarrow> string" where
  "trimEnd [] = []"
| "trimEnd (c # cs) = (if dropSpaces (c # cs) = [] then [] else c # trimEnd cs)"

definition trim :: "string \<Rightarrow> string" where
  "trim s = trimEnd (dropSpaces s)"

text \<open>
  \<^verbatim>\<open>s.split(/\s+/)\<close>: the pieces between maximal runs of white space, the empty piece
  before a leading run and after a trailing one included.
\<close>

function splitPiece :: "string \<Rightarrow> string \<Rightarrow> string list" where
  "splitPiece [] piece = [rev piece]"
| "splitPiece (c # cs) piece =
     (case afterSpace (c # cs) of
        None \<Rightarrow> splitPiece cs (c # piece)
      | Some rest \<Rightarrow> rev piece # splitPiece (dropSpaces rest) [])"
  by pat_completeness auto
termination
proof (relation "measure (\<lambda>(s, piece). length s)")
  show "wf (measure (\<lambda>(s, piece). length s))"
    by simp
next
  fix c cs piece
  show "((cs, c # piece), c # cs, piece) \<in> measure (\<lambda>(s, piece). length s)"
    by simp
next
  fix c cs piece rest
  assume "afterSpace (c # cs) = Some rest"
  then have "length rest < length (c # cs)"
    by (rule afterSpace_shorter)
  with dropSpaces_shorter [of rest]
  show "((dropSpaces rest, []), c # cs, piece) \<in> measure (\<lambda>(s, piece). length s)"
    by simp
qed

declare splitPiece.simps [simp del]

definition splitSpaces :: "string \<Rightarrow> string list" where
  "splitSpaces s = splitPiece s []"

section \<open>Reading the tasks (text variant, \<^verbatim>\<open>just.ts\<close>)\<close>

record Task =
  t_name :: string
  t_description :: string
  t_parameters :: "TaskParameter list"

text \<open>
  The result of matching a line against
  \<^verbatim>\<open>/^\s*(\w+)(?:\s+([^#]*))?(?:\s*#\s*(.*))?/\<close>: the task name and the two optional
  groups, the arguments and the comment, each \<^verbatim>\<open>undefined\<close> (\<open>None\<close>) when its group
  did not take part.
\<close>

record lineMatch =
  m_taskName :: string
  m_argsStr :: "string option"
  m_comment :: "string option"

text \<open>\<^verbatim>\<open>\w\<close>: a letter of ASCII, a digit or the underscore.\<close>

definition isWordChar :: "char \<Rightarrow> bool" where
  "isWordChar c =
     ((48 \<le> byte c \<and> byte c \<le> 57) \<or> (65 \<le> byte c \<and> byte c \<le> 90) \<or> byte c = 95 \<or>
      (97 \<le> byte c \<and> byte c \<le> 122))"

text \<open>
  \<^verbatim>\<open>(.*)\<close> at the end of the pattern: everything up to the first line terminator
  (U+000A, U+000D, U+2028, U+2029) or the end.
\<close>

definition lineEndAhead :: "string \<Rightarrow> bool" where
  "lineEndAhead s =
     (prefix [CHR 0x0A] s \<or> prefix [CHR 0x0D] s \<or>
      prefix [CHR 0xE2, CHR 0x80, CHR 0xA8] s \<or> prefix [CHR 0xE2, CHR 0x80, CHR 0xA9] s)"

fun untilLineEnd :: "string \<Rightarrow> string" where
  "untilLineEnd [] = []"
| "untilLineEnd (c # cs) = (if lineEndAhead (c # cs) then [] else c # untilLineEnd cs)"

text \<open>
  The last group \<^verbatim>\<open>(?:\s*#\s*(.*))?\<close>, tried where the white space before it is
  already taken: it takes part when a \<^verbatim>\<open>#\<close> is next.
\<close>

fun commentGroup :: "string \<Rightarrow> string option" where
  "commentGroup [] = None"
| "commentGroup (c # cs) = (if c = CHR ''#'' then Some (untilLineEnd (dropSpaces cs)) else None)"

text \<open>
  The match. Every quantifier is greedy and what follows the name is optional, so the
  first way to match is the one the engine returns: the white space at the start, the
  longest name, then the arguments group when white space follows the name (the white
  space and everything up to the first \<^verbatim>\<open>#\<close>), then the comment group when a
  \<^verbatim>\<open>#\<close> is next. A line with no word character after its leading white space does
  not match.
\<close>

definition matchLine :: "string \<Rightarrow> lineMatch option" where
  "matchLine line =
     (let start = dropSpaces line;
          name = takeWhile isWordChar start;
          rest = dropWhile isWordChar start
      in if name = [] then None
         else if afterSpace rest \<noteq> None then
           Some \<lparr>m_taskName = name,
                 m_argsStr = Some (takeWhile (\<lambda>c. c \<noteq> CHR ''#'') (dropSpaces rest)),
                 m_comment = commentGroup (dropWhile (\<lambda>c. c \<noteq> CHR ''#'') (dropSpaces rest))\<rparr>
         else
           Some \<lparr>m_taskName = name, m_argsStr = None, m_comment = commentGroup rest\<rparr>)"

text \<open>The destructuring gives both optional groups the default \<^verbatim>\<open>""\<close>.\<close>

fun orEmpty :: "string option \<Rightarrow> string" where
  "orEmpty None = []"
| "orEmpty (Some s) = s"

definition taskParameter :: "string \<Rightarrow> TaskParameter" where
  "taskParameter p =
     \<lparr>tp_name = (if prefix ''$'' p \<or> prefix ''*'' p then drop 1 p else p),
      tp_isVarArgs = prefix ''*'' p\<rparr>"

definition parseTask :: "lineMatch \<Rightarrow> Task" where
  "parseTask m =
     \<lparr>t_name = m_taskName m,
      t_description =
        (if trim (orEmpty (m_comment m)) = []
         then ''Run the '' @ m_taskName m @ '' task''
         else trim (orEmpty (m_comment m))),
      t_parameters =
        map taskParameter
          (filter (\<lambda>p. trim p \<noteq> []) (splitSpaces (trim (orEmpty (m_argsStr m)))))\<rparr>"

text \<open>\<^verbatim>\<open>taskList.split("\n")\<close>.\<close>

fun splitLines :: "string \<Rightarrow> string \<Rightarrow> string list" where
  "splitLines [] line = [rev line]"
| "splitLines (c # cs) line =
     (if c = CHR 0x0A then rev line # splitLines cs [] else splitLines cs (c # line))"

text \<open>The loop over the lines: a line that does not match is skipped.\<close>

fun tasksLoop :: "string list option \<Rightarrow> string list \<Rightarrow> Task list \<Rightarrow> Task list" where
  "tasksLoop allowed [] tasks = tasks"
| "tasksLoop allowed (line # rest) tasks =
     (case matchLine line of
        None \<Rightarrow> tasksLoop allowed rest tasks
      | Some m \<Rightarrow>
          (if notAllowed allowed (m_taskName m) then tasksLoop allowed rest tasks
           else tasksLoop allowed rest (tasks @ [parseTask m])))"

text \<open>
  \<^verbatim>\<open>getJustTasks\<close>: the listing is the decoded output of \<^verbatim>\<open>just -l\<close>; when running
  the command throws, there are no tasks.
\<close>

definition listCommand :: "string \<Rightarrow> command" where
  "listCommand project = \<lparr>cmd_program = ''just'', cmd_args = [JStr ''-l''], cmd_cwd = project\<rparr>"

definition getJustTasks ::
  "(command \<Rightarrow> thrown + string) \<Rightarrow> string list option \<Rightarrow> string \<Rightarrow> Task list" where
  "getJustTasks run allowed project =
     (case run (listCommand project) of
        Inl e \<Rightarrow> []
      | Inr stdout \<Rightarrow> tasksLoop allowed (splitLines (textDecode stdout) []) [])"

section \<open>Registering the tasks (text variant)\<close>




section \<open>Calling a tool\<close>

text \<open>
  \<^verbatim>\<open>z.object(shape)\<close> accepts a value map when every field of the shape accepts the
  map's value under its key, \<^verbatim>\<open>undefined\<close> for a key that is absent.
\<close>

definition objectAccepts :: "(string \<times> zschema) list \<Rightarrow> (string \<times> jsval) list \<Rightarrow> bool" where
  "objectAccepts shape entries =
     list_all (\<lambda>(k, s). zodAccepts s (map_of entries k)) shape"





section \<open>Schema synthesis: properties\<close>

text \<open>
  C1. A parameter whose default is an array in the dump (an expression of the Justfile)
  gets an optional schema whatever its kind: an optional string for a singular parameter,
  an optional array of strings for a star or plus parameter. The schema is never required,
  and its description ends by saying that the default value is an expression in the
  Justfile.
\<close>

theorem expression_default_schema:
  assumes "jp_default p = DArr xs"
  shows "zodShape (createParameterSchema p r) =
           (if jp_kind p = Singular then ZOptional ZString else ZOptional (ZArray ZString))
         \<and> isOptional (createParameterSchema p r)
         \<and> (\<exists>d. zodDescription (createParameterSchema p r) = Some d
                \<and> suffix ''(default value is an expression in the Justfile)'' d)"
proof -
  have arr: "isArrayDefault (jp_default p)"
    using assms by simp
  show ?thesis
  proof (cases "jp_kind p")
    case Singular
    with arr show ?thesis
      by (simp add: createParameterSchema_def isOptional_def suffix_def)
  next
    case Star
    with arr show ?thesis
      by (simp add: createParameterSchema_def isOptional_def suffix_def)
  next
    case Plus
    with arr show ?thesis
      by (simp add: createParameterSchema_def isOptional_def suffix_def)
  qed
qed

theorem expression_default_schema_witness:
  "jp_default \<lparr>jp_name = ''triple'', jp_kind = Singular,
               jp_default = DArr [''concatenate'', ''arch''], jp_export = False\<rparr>
     = DArr [''concatenate'', ''arch'']
   \<and> zodShape (createParameterSchema
        \<lparr>jp_name = ''triple'', jp_kind = Singular,
         jp_default = DArr [''concatenate'', ''arch''], jp_export = False\<rparr>
        ''test_expression_args'') = ZOptional ZString
   \<and> isOptional (createParameterSchema
        \<lparr>jp_name = ''triple'', jp_kind = Singular,
         jp_default = DArr [''concatenate'', ''arch''], jp_export = False\<rparr>
        ''test_expression_args'')"
  using expression_default_schema
    [of "\<lparr>jp_name = ''triple'', jp_kind = Singular,
          jp_default = DArr [''concatenate'', ''arch''], jp_export = False\<rparr>"
        "[''concatenate'', ''arch'']" "''test_expression_args''"]
  by simp

text \<open>
  C2. A plus parameter whose literal default is the empty string, as in
  \<^verbatim>\<open>lint +ARGS=""\<close>: the test \<^verbatim>\<open>param.default ? ... : ...\<close> takes the empty string
  for no default, so the schema is the required sequence with at least one element, and
  not the optional sequence that a parameter with a literal default is to get.
\<close>

theorem plus_empty_default_required:
  "createParameterSchema
     \<lparr>jp_name = ''ARGS'', jp_kind = Plus, jp_default = DStr '''', jp_export = False\<rparr> ''lint''
   = ZDescribe (ZMin (ZArray ZString) 1) ''Parameters for the lint recipe (at least one required)''
   \<and> \<not> isOptional (createParameterSchema
        \<lparr>jp_name = ''ARGS'', jp_kind = Plus, jp_default = DStr '''', jp_export = False\<rparr> ''lint'')
   \<and> \<not> objectAccepts
        (tool_parameters (recipeTool ''lint''
           \<lparr>jr_name = ''lint'',
            jr_parameters = [\<lparr>jp_name = ''ARGS'', jp_kind = Plus, jp_default = DStr '''',
                              jp_export = False\<rparr>],
            jr_doc = None, jr_body = [], jr_dependencies = [], jr_private = False,
            jr_quiet = False, jr_shebang = False\<rparr>))
        []"
  by (simp add: createParameterSchema_def isOptional_def objectAccepts_def recipeTool_def
      fromEntries_def objSet_def arrayIndex_def isNumeral_def isDigit_def byte_def)

text \<open>
  C3. A singular parameter whose literal default is the empty string, as in
  \<^verbatim>\<open>deploy target=""\<close>: the same test takes the empty string for no default, so the
  schema is the required string, described as a required parameter, and a call with no
  arguments is refused although the recipe has a default for \<^verbatim>\<open>target\<close>.
\<close>

theorem singular_empty_default_required:
  "createParameterSchema
     \<lparr>jp_name = ''target'', jp_kind = Singular, jp_default = DStr '''', jp_export = False\<rparr>
     ''deploy''
   = ZDescribe ZString ''Required parameter target''
   \<and> \<not> isOptional (createParameterSchema
        \<lparr>jp_name = ''target'', jp_kind = Singular, jp_default = DStr '''', jp_export = False\<rparr>
        ''deploy'')
   \<and> \<not> objectAccepts
        (tool_parameters (recipeTool ''deploy''
           \<lparr>jr_name = ''deploy'',
            jr_parameters = [\<lparr>jp_name = ''target'', jp_kind = Singular, jp_default = DStr '''',
                              jp_export = False\<rparr>],
            jr_doc = None, jr_body = [], jr_dependencies = [], jr_private = False,
            jr_quiet = False, jr_shebang = False\<rparr>))
        []"
  by (simp add: createParameterSchema_def isOptional_def objectAccepts_def recipeTool_def
      fromEntries_def objSet_def arrayIndex_def isNumeral_def isDigit_def byte_def)

text \<open>
  X1. A plus parameter with no default gets a required sequence of strings with at least
  one element: the tool's schema refuses the empty sequence and accepts a sequence of one
  string, which marshals to that string (the engine lets a call spread one element).
\<close>

theorem plus_without_default_requires_one:
  assumes "jp_kind p = Plus" and "jp_default p = DNull" and "0 < maxSpread"
  shows "createParameterSchema p r =
           ZDescribe (ZMin (ZArray ZString) 1)
             (''Parameters for the '' @ r @ '' recipe (at least one required)'')
         \<and> \<not> isOptional (createParameterSchema p r)
         \<and> \<not> objectAccepts [(jp_name p, createParameterSchema p r)] [(jp_name p, JArr [])]
         \<and> objectAccepts [(jp_name p, createParameterSchema p r)] [(jp_name p, JArr [JStr x])]
         \<and> processParameters maxSpread (Some [(jp_name p, JArr [JStr x])]) [p] = Inr [JStr x]"
  using assms
  by (simp add: createParameterSchema_def isOptional_def objectAccepts_def processParameters_def)

theorem plus_without_default_requires_one_witness:
  "jp_kind \<lparr>jp_name = ''ARGS'', jp_kind = Plus, jp_default = DNull, jp_export = False\<rparr> = Plus
   \<and> jp_default \<lparr>jp_name = ''ARGS'', jp_kind = Plus, jp_default = DNull, jp_export = False\<rparr>
       = DNull
   \<and> \<not> objectAccepts
        [(''ARGS'', createParameterSchema
            \<lparr>jp_name = ''ARGS'', jp_kind = Plus, jp_default = DNull, jp_export = False\<rparr>
            ''test_minimum_variable'')]
        [(''ARGS'', JArr [])]
   \<and> objectAccepts
        [(''ARGS'', createParameterSchema
            \<lparr>jp_name = ''ARGS'', jp_kind = Plus, jp_default = DNull, jp_export = False\<rparr>
            ''test_minimum_variable'')]
        [(''ARGS'', JArr [JStr ''x''])]
   \<and> processParameters 125000 (Some [(''ARGS'', JArr [JStr ''x''])])
        [\<lparr>jp_name = ''ARGS'', jp_kind = Plus, jp_default = DNull, jp_export = False\<rparr>]
       = Inr [JStr ''x'']"
proof -
  let ?p = "\<lparr>jp_name = ''ARGS'', jp_kind = Plus, jp_default = DNull, jp_export = False\<rparr>"
  have kind: "jp_kind ?p = Plus"
    by simp
  have none: "jp_default ?p = DNull"
    by simp
  have name: "jp_name ?p = ''ARGS''"
    by simp
  have room: "0 < (125000 :: nat)"
    by simp
  note schema = plus_without_default_requires_one
    [OF kind none room, of "''test_minimum_variable''" "''x''", unfolded name]
  from kind none schema show ?thesis
    by blast
qed

text \<open>
  X2. A plus parameter with a literal default that is not the empty string gets an
  optional sequence of strings, and the description states the default.
\<close>

theorem plus_with_default_optional:
  assumes "jp_kind p = Plus" and "jp_default p = DStr s" and "s \<noteq> []"
  shows "createParameterSchema p r =
           ZDescribe (ZOptional (ZArray ZString))
             (''Parameters for the '' @ r @ '' recipe (default: '' @ s @ '')'')
         \<and> isOptional (createParameterSchema p r)"
  using assms
  by (simp add: createParameterSchema_def isOptional_def)

theorem plus_with_default_optional_witness:
  "jp_kind \<lparr>jp_name = ''files'', jp_kind = Plus, jp_default = DStr ''just.ts'',
             jp_export = False\<rparr> = Plus
   \<and> jp_default \<lparr>jp_name = ''files'', jp_kind = Plus, jp_default = DStr ''just.ts'',
                  jp_export = False\<rparr> = DStr ''just.ts''
   \<and> ''just.ts'' \<noteq> []
   \<and> createParameterSchema
        \<lparr>jp_name = ''files'', jp_kind = Plus, jp_default = DStr ''just.ts'', jp_export = False\<rparr>
        ''check''
       = ZDescribe (ZOptional (ZArray ZString))
           ''Parameters for the check recipe (default: just.ts)''"
  using plus_with_default_optional
    [of "\<lparr>jp_name = ''files'', jp_kind = Plus, jp_default = DStr ''just.ts'',
          jp_export = False\<rparr>"
        "''just.ts''" "''check''"]
  by simp

text \<open>
  X3. A singular parameter gets an optional string, with the default stated in the
  description, when it has a literal default that is not the empty string, and a required
  string when it has no default. A call with no arguments marshals to no argument, and a
  call with a string for the parameter marshals to that string.
\<close>

theorem singular_schema:
  "(jp_kind p = Singular \<and> jp_default p = DStr s \<and> s \<noteq> [] \<longrightarrow>
      createParameterSchema p r =
        ZDescribe (ZOptional ZString)
          (''Optional parameter '' @ jp_name p @ '' (default: '' @ s @ '')'')
      \<and> isOptional (createParameterSchema p r))
   \<and> (jp_kind p = Singular \<and> jp_default p = DNull \<longrightarrow>
      createParameterSchema p r = ZDescribe ZString (''Required parameter '' @ jp_name p)
      \<and> \<not> isOptional (createParameterSchema p r))
   \<and> (jp_kind p = Singular \<longrightarrow>
      processParameters maxSpread (Some []) [p] = Inr []
      \<and> processParameters maxSpread (Some [(jp_name p, JStr v)]) [p] = Inr [JStr v])"
  by (simp add: createParameterSchema_def isOptional_def processParameters_def)

theorem singular_schema_witness:
  "createParameterSchema
     \<lparr>jp_name = ''target'', jp_kind = Singular, jp_default = DStr ''staging'',
      jp_export = False\<rparr> ''deploy''
     = ZDescribe (ZOptional ZString) ''Optional parameter target (default: staging)''
   \<and> createParameterSchema
     \<lparr>jp_name = ''arg'', jp_kind = Singular, jp_default = DNull, jp_export = False\<rparr>
     ''test_required_arg''
     = ZDescribe ZString ''Required parameter arg''
   \<and> processParameters 125000 (Some [])
       [\<lparr>jp_name = ''target'', jp_kind = Singular, jp_default = DStr ''staging'',
         jp_export = False\<rparr>] = Inr []
   \<and> processParameters 125000 (Some [(''target'', JStr ''production'')])
       [\<lparr>jp_name = ''target'', jp_kind = Singular, jp_default = DStr ''staging'',
         jp_export = False\<rparr>] = Inr [JStr ''production'']"
proof -
  let ?p = "\<lparr>jp_name = ''target'', jp_kind = Singular, jp_default = DStr ''staging'',
             jp_export = False\<rparr>"
  let ?q = "\<lparr>jp_name = ''arg'', jp_kind = Singular, jp_default = DNull, jp_export = False\<rparr>"
  have hp: "jp_kind ?p = Singular \<and> jp_default ?p = DStr ''staging'' \<and> ''staging'' \<noteq> []"
    by simp
  have hq: "jp_kind ?q = Singular \<and> jp_default ?q = DNull"
    by simp
  from hp singular_schema [of ?p "''staging''" "''deploy''" 125000 "''production''"]
  have "createParameterSchema ?p ''deploy'' =
          ZDescribe (ZOptional ZString)
            (''Optional parameter '' @ jp_name ?p @ '' (default: '' @ ''staging'' @ '')'')"
    and "processParameters 125000 (Some []) [?p] = Inr []"
    and "processParameters 125000 (Some [(jp_name ?p, JStr ''production'')]) [?p] =
          Inr [JStr ''production'']"
    by blast+
  moreover from hq singular_schema [of ?q "''x''" "''test_required_arg''" 125000 "''x''"]
  have "createParameterSchema ?q ''test_required_arg'' =
          ZDescribe ZString (''Required parameter '' @ jp_name ?q)"
    by blast
  ultimately show ?thesis
    by simp
qed

text \<open>X4. A star parameter always gets an optional sequence of strings.\<close>

theorem star_schema_optional:
  assumes "jp_kind p = Star"
  shows "zodShape (createParameterSchema p r) = ZOptional (ZArray ZString)
         \<and> isOptional (createParameterSchema p r)"
  using assms
  by (simp add: createParameterSchema_def isOptional_def)

theorem star_schema_optional_witness:
  "jp_kind \<lparr>jp_name = ''test_files'', jp_kind = Star, jp_default = DNull, jp_export = False\<rparr>
     = Star
   \<and> zodShape (createParameterSchema
        \<lparr>jp_name = ''test_files'', jp_kind = Star, jp_default = DNull, jp_export = False\<rparr>
        ''test'') = ZOptional (ZArray ZString)
   \<and> isOptional (createParameterSchema
        \<lparr>jp_name = ''test_files'', jp_kind = Star, jp_default = DNull, jp_export = False\<rparr>
        ''test'')"
  using star_schema_optional
    [of "\<lparr>jp_name = ''test_files'', jp_kind = Star, jp_default = DNull, jp_export = False\<rparr>"
        "''test''"]
  by simp

section \<open>Decoding and numerals: properties\<close>

lemma drain_from:
  "foldl (\<lambda>output (s, chunk). output @ textDecode chunk) acc chunks =
     acc @ concat (map (\<lambda>(s, chunk). textDecode chunk) chunks)"
  by (induction chunks arbitrary: acc) (auto simp: case_prod_beta)

lemma drain_concat: "drain chunks = concat (map (\<lambda>(s, chunk). textDecode chunk) chunks)"
  by (simp add: drain_def drain_from)

text \<open>ASCII text decodes to itself.\<close>

lemma utf8Decode_ascii:
  "list_all (\<lambda>b. byte b < 128) s \<Longrightarrow> utf8Decode 0 0x80 0xBF [] s = s"
  by (induction s) auto

lemma ascii_no_mark:
  assumes "list_all (\<lambda>b. byte b < 128) s"
  shows "\<not> prefix byteOrderMark s"
proof
  assume "prefix byteOrderMark s"
  then obtain rest where "s = CHR 0xEF # rest"
    by (auto simp: byteOrderMark_def prefix_def)
  with assms show False
    by (simp add: byte_def)
qed

lemma textDecode_ascii: "list_all (\<lambda>b. byte b < 128) s \<Longrightarrow> textDecode s = s"
  by (simp add: textDecode_def utf8Decode_ascii ascii_no_mark)

lemma drain_ascii:
  assumes "list_all (\<lambda>(s, chunk). list_all (\<lambda>b. byte b < 128) chunk) chunks"
  shows "drain chunks = concat (map snd chunks)"
proof -
  have same: "map (\<lambda>(s, chunk). textDecode chunk) chunks = map snd chunks"
    using assms by (induction chunks) (auto simp: textDecode_ascii)
  show ?thesis
    by (simp only: drain_concat same)
qed

text \<open>\<open>showInt\<close> writes the decimal numeral of its argument.\<close>

lemma digitChar_value:
  assumes "n < 10"
  shows "byte (digitChar n) = 48 + n"
proof -
  have digits: "[0..<10] = [0, 1, 2, 3, 4, 5, 6, 7, 8, 9 :: nat]"
    by (simp add: upt_rec)
  from assms have "n \<in> set [0..<10]"
    by simp
  then have "n \<in> set [0, 1, 2, 3, 4, 5, 6, 7, 8, 9 :: nat]"
    by (simp only: digits)
  then show ?thesis
    by (auto simp: digitChar_def byte_def)
qed

lemma digitChar_digit: "n < 10 \<Longrightarrow> isDigit (digitChar n)"
  by (simp add: isDigit_def digitChar_value)

lemma zero_char: "byte c = 48 \<Longrightarrow> c = CHR ''0''"
proof -
  assume "byte c = 48"
  then have "of_char c = (of_char (CHR ''0'') :: nat)"
    by (simp add: byte_def)
  then show ?thesis
    by (simp only: of_char_eq_iff)
qed

lemma readNat_snoc: "readNat (s @ [c]) = 10 * readNat s + (byte c - 48)"
  by (simp add: readNat_def)

lemma showNat_nonempty: "showNat n \<noteq> []"
  by (subst showNat.simps) simp

lemma showNat_digits: "list_all isDigit (showNat n)"
proof (induction n rule: showNat.induct)
  case (1 n)
  show ?case
  proof (cases "n < 10")
    case True
    then show ?thesis
      by (simp add: showNat.simps [of n] digitChar_digit)
  next
    case False
    with "1" show ?thesis
      by (simp add: showNat.simps [of n] digitChar_digit)
  qed
qed

lemma readNat_showNat: "readNat (showNat n) = n"
proof (induction n rule: showNat.induct)
  case (1 n)
  show ?case
  proof (cases "n < 10")
    case True
    then show ?thesis
      by (simp add: showNat.simps [of n] readNat_def digitChar_value)
  next
    case False
    with "1" have "readNat (showNat (n div 10)) = n div 10"
      by simp
    with False show ?thesis
      by (simp add: showNat.simps [of n] readNat_snoc digitChar_value)
  qed
qed

lemma showNat_leading: "0 < n \<Longrightarrow> take 1 (showNat n) \<noteq> ''0''"
proof (induction n rule: showNat.induct)
  case (1 n)
  show ?case
  proof (cases "n < 10")
    case True
    have "digitChar n \<noteq> CHR ''0''"
    proof
      assume "digitChar n = CHR ''0''"
      then have "byte (digitChar n) = 48"
        by (simp add: byte_def)
      with True "1.prems" show False
        by (simp add: digitChar_value)
    qed
    with True show ?thesis
      by (simp add: showNat.simps [of n])
  next
    case False
    then have "0 < n div 10"
      by simp
    with False "1.IH" have "take 1 (showNat (n div 10)) \<noteq> ''0''"
      by simp
    moreover have "take 1 (showNat (n div 10) @ [digitChar (n mod 10)]) = take 1 (showNat (n div 10))"
      using showNat_nonempty [of "n div 10"] by (cases "showNat (n div 10)") simp_all
    ultimately show ?thesis
      using False by (simp add: showNat.simps [of n])
  qed
qed

lemma showNat_numeral: "isNumeral (showNat n)"
proof (cases "n = 0")
  case True
  then show ?thesis
    by (simp add: isNumeral_def showNat.simps [of 0] digitChar_def isDigit_def byte_def)
next
  case False
  then have "0 < n"
    by simp
  from showNat_leading [OF this] show ?thesis
    by (simp add: isNumeral_def showNat_nonempty showNat_digits)
qed

lemma decimalOf_showInt: "decimalOf i (showInt i)"
  by (simp add: decimalOf_def showInt_def showNat_numeral readNat_showNat)

lemma showInt_0: "showInt 0 = ''0''"
  by (simp add: showInt_def showNat.simps digitChar_def)


section \<open>Argument marshalling: properties\<close>

lemma find_declared:
  assumes "k \<in> set (map jp_name ps)"
  obtains p where "find (\<lambda>p. jp_name p = k) ps = Some p" "p \<in> set ps" "jp_name p = k"
proof -
  from assms have "find (\<lambda>p. jp_name p = k) ps \<noteq> None"
    by (auto simp: find_None_iff)
  then obtain p where f: "find (\<lambda>p. jp_name p = k) ps = Some p"
    by blast
  then have "p \<in> set ps" "jp_name p = k"
    by (auto simp: find_Some_iff)
  with f that show thesis
    by blast
qed

lemma isString_flat: "isString v \<Longrightarrow> flatValue v = [v]"
  by (cases v) simp_all

lemma isStringArray_flat: "isStringArray v \<Longrightarrow> isArray v \<and> flatValue v = spread v"
  by (cases v) simp_all

lemma processLoop_wellShaped:
  "list_all (wellShaped ps) es \<Longrightarrow> withinSpread maxSpread es \<Longrightarrow>
   processLoop maxSpread ps es acc = Inr (acc @ flattenValues es)"
proof (induction es arbitrary: acc)
  case Nil
  show ?case by (simp add: flattenValues_def)
next
  case (Cons e es)
  obtain k v where e: "e = (k, v)"
    by (cases e)
  from Cons.prems have here: "wellShaped ps e" and rest: "list_all (wellShaped ps) es"
    by simp_all
  from Cons.prems e have short: "length (spread v) \<le> maxSpread"
    and rest_short: "withinSpread maxSpread es"
    by (simp_all add: withinSpread_def)
  from here e have declared: "k \<in> set (map jp_name ps)"
    and shaped: "list_all (\<lambda>p. matchesKind (jp_kind p) v) (filter (\<lambda>p. jp_name p = k) ps)"
    by (simp_all add: wellShaped_def)
  from declared obtain p where p: "find (\<lambda>p. jp_name p = k) ps = Some p"
    "p \<in> set ps" "jp_name p = k"
    by (rule find_declared)
  from shaped p have m: "matchesKind (jp_kind p) v"
    by (simp add: list_all_iff)
  have tail: "\<And>acc'. processLoop maxSpread ps es acc' = Inr (acc' @ flattenValues es)"
    using Cons.IH [OF rest rest_short] .
  have flat: "flattenValues (e # es) = flatValue v @ flattenValues es"
    by (simp add: flattenValues_def e)
  show ?case
  proof (cases "jp_kind p")
    case Singular
    with m have "isString v" by simp
    with Singular p tail flat e show ?thesis
      by (simp add: isString_flat)
  next
    case Star
    with m have "isStringArray v" by simp
    with Star p tail flat e short show ?thesis
      by (simp add: isStringArray_flat)
  next
    case Plus
    with m have "isStringArray v" by simp
    with Plus p tail flat e short show ?thesis
      by (simp add: isStringArray_flat)
  qed
qed

lemma find_declared_text:
  assumes "k \<in> set (map tp_name ps)"
  obtains p where "find (\<lambda>p. tp_name p = k) ps = Some p" "p \<in> set ps" "tp_name p = k"
proof -
  from assms have "find (\<lambda>p. tp_name p = k) ps \<noteq> None"
    by (auto simp: find_None_iff)
  then obtain p where f: "find (\<lambda>p. tp_name p = k) ps = Some p"
    by blast
  then have "p \<in> set ps" "tp_name p = k"
    by (auto simp: find_Some_iff)
  with f that show thesis
    by blast
qed

lemma processLoop_text_wellShaped:
  "list_all (wellShaped_text ps) es \<Longrightarrow> withinSpread maxSpread es \<Longrightarrow>
   processLoop_text maxSpread ps es acc = Inr (acc @ flattenValues es)"
proof (induction es arbitrary: acc)
  case Nil
  show ?case by (simp add: flattenValues_def)
next
  case (Cons e es)
  obtain k v where e: "e = (k, v)"
    by (cases e)
  from Cons.prems have here: "wellShaped_text ps e" and rest: "list_all (wellShaped_text ps) es"
    by simp_all
  from Cons.prems e have short: "length (spread v) \<le> maxSpread"
    and rest_short: "withinSpread maxSpread es"
    by (simp_all add: withinSpread_def)
  from here e have declared: "k \<in> set (map tp_name ps)"
    and shaped: "list_all (\<lambda>p. if tp_isVarArgs p then isStringArray v else isString v)
                   (filter (\<lambda>p. tp_name p = k) ps)"
    by (simp_all add: wellShaped_text_def cong: if_cong)
  from declared obtain p where p: "find (\<lambda>p. tp_name p = k) ps = Some p"
    "p \<in> set ps" "tp_name p = k"
    by (rule find_declared_text)
  from shaped p have m: "if tp_isVarArgs p then isStringArray v else isString v"
    by (simp add: list_all_iff)
  have tail: "\<And>acc'. processLoop_text maxSpread ps es acc' = Inr (acc' @ flattenValues es)"
    using Cons.IH [OF rest rest_short] .
  have flat: "flattenValues (e # es) = flatValue v @ flattenValues es"
    by (simp add: flattenValues_def e)
  show ?case
  proof (cases "tp_isVarArgs p")
    case True
    with m have "isStringArray v" by simp
    with True p tail flat e short show ?thesis
      by (simp add: isStringArray_flat)
  next
    case False
    with m have "isString v" by simp
    with False p tail flat e show ?thesis
      by (simp add: isString_flat)
  qed
qed

text \<open>
  C4. A sequence of strings that is longer than the engine lets a call spread: the value
  map is well shaped (its key names a variadic parameter and its value is a sequence of
  strings, which the schema accepts at any length), its flattened values are the elements
  of the sequence, but \<^verbatim>\<open>args.push(...value)\<close> throws and the marshaller returns no
  argument list. This holds for the marshaller of either variant.
\<close>

theorem marshal_throws_on_long_sequence:
  "(jp_kind p \<noteq> Singular \<and> maxSpread < length xs \<longrightarrow>
      processParameters maxSpread (Some [(jp_name p, JArr xs)]) [p] =
        Inl (ThrownError ''Maximum call stack size exceeded'')
      \<and> flattenValues [(jp_name p, JArr xs)] = xs)
   \<and> (tp_isVarArgs t \<and> maxSpread < length xs \<longrightarrow>
      processParameters_text maxSpread [(tp_name t, JArr xs)] [t] =
        Inl (ThrownError ''Maximum call stack size exceeded'')
      \<and> flattenValues [(tp_name t, JArr xs)] = xs)"
  by (cases "jp_kind p")
     (simp_all add: processParameters_def processParameters_text_def spreadError_def
        flattenValues_def)

theorem marshal_throws_on_long_sequence_witness:
  "list_all (wellShaped
      [\<lparr>jp_name = ''test_files'', jp_kind = Star, jp_default = DNull, jp_export = False\<rparr>])
     [(''test_files'', JArr (replicate 130000 (JStr ''a.test.ts'')))]
   \<and> processParameters 125000
        (Some [(''test_files'', JArr (replicate 130000 (JStr ''a.test.ts'')))])
        [\<lparr>jp_name = ''test_files'', jp_kind = Star, jp_default = DNull, jp_export = False\<rparr>]
      = Inl (ThrownError ''Maximum call stack size exceeded'')
   \<and> list_all (wellShaped_text [\<lparr>tp_name = ''test_files'', tp_isVarArgs = True\<rparr>])
     [(''test_files'', JArr (replicate 130000 (JStr ''a.test.ts'')))]
   \<and> processParameters_text 125000
        [(''test_files'', JArr (replicate 130000 (JStr ''a.test.ts'')))]
        [\<lparr>tp_name = ''test_files'', tp_isVarArgs = True\<rparr>]
      = Inl (ThrownError ''Maximum call stack size exceeded'')"
proof -
  let ?p = "\<lparr>jp_name = ''test_files'', jp_kind = Star, jp_default = DNull, jp_export = False\<rparr>"
  let ?t = "\<lparr>tp_name = ''test_files'', tp_isVarArgs = True\<rparr>"
  let ?xs = "replicate 130000 (JStr ''a.test.ts'')"
  have shaped: "list_all (wellShaped [?p]) [(''test_files'', JArr ?xs)]"
    by (simp add: wellShaped_def list_all_iff)
  have shaped_text: "list_all (wellShaped_text [?t]) [(''test_files'', JArr ?xs)]"
    by (simp add: wellShaped_text_def list_all_iff)
  have hp: "jp_kind ?p \<noteq> Singular \<and> 125000 < length ?xs"
    by simp
  have ht: "tp_isVarArgs ?t \<and> 125000 < length ?xs"
    by simp
  have np: "jp_name ?p = ''test_files''" and nt: "tp_name ?t = ''test_files''"
    by simp_all
  note thrown = marshal_throws_on_long_sequence [of ?p 125000 ?xs ?t, unfolded np nt]
  from hp thrown have r1: "processParameters 125000 (Some [(''test_files'', JArr ?xs)]) [?p] =
      Inl (ThrownError ''Maximum call stack size exceeded'')"
    by blast
  from ht thrown have r2: "processParameters_text 125000 [(''test_files'', JArr ?xs)] [?t] =
      Inl (ThrownError ''Maximum call stack size exceeded'')"
    by blast
  from shaped shaped_text r1 r2 show ?thesis
    by blast
qed

text \<open>
  X5. When every key of the value map names a declared parameter, every value has the
  shape of its parameter's schema (a string for a singular parameter, a sequence of
  strings for a star or plus parameter) and no sequence is longer than the engine lets a
  call spread, the marshaller returns exactly the flattened values in the value map's own
  key order. This holds for the marshaller of the structured variant and for the one of
  the text variant, where a variadic parameter takes the sequence.
\<close>

theorem marshal_flattens:
  "(list_all (wellShaped ps) es \<and> withinSpread maxSpread es \<longrightarrow>
      processParameters maxSpread (Some es) ps = Inr (flattenValues es)) \<and>
   (list_all (wellShaped_text ts) es \<and> withinSpread maxSpread es \<longrightarrow>
      processParameters_text maxSpread es ts = Inr (flattenValues es))"
  by (simp add: processParameters_def processParameters_text_def
      processLoop_wellShaped processLoop_text_wellShaped)

theorem marshal_flattens_witness:
  "list_all (wellShaped
      [\<lparr>jp_name = ''target'', jp_kind = Singular, jp_default = DNull, jp_export = False\<rparr>,
       \<lparr>jp_name = ''files'', jp_kind = Plus, jp_default = DNull, jp_export = False\<rparr>])
     [(''files'', JArr [JStr ''a'', JStr ''b'']), (''target'', JStr ''x'')]
   \<and> withinSpread 125000 [(''files'', JArr [JStr ''a'', JStr ''b'']), (''target'', JStr ''x'')]
   \<and> processParameters 125000
      (Some [(''files'', JArr [JStr ''a'', JStr ''b'']), (''target'', JStr ''x'')])
      [\<lparr>jp_name = ''target'', jp_kind = Singular, jp_default = DNull, jp_export = False\<rparr>,
       \<lparr>jp_name = ''files'', jp_kind = Plus, jp_default = DNull, jp_export = False\<rparr>]
     = Inr [JStr ''a'', JStr ''b'', JStr ''x'']
   \<and> list_all (wellShaped_text
      [\<lparr>tp_name = ''target'', tp_isVarArgs = False\<rparr>,
       \<lparr>tp_name = ''files'', tp_isVarArgs = True\<rparr>])
     [(''files'', JArr [JStr ''a'', JStr ''b'']), (''target'', JStr ''x'')]
   \<and> processParameters_text 125000
      [(''files'', JArr [JStr ''a'', JStr ''b'']), (''target'', JStr ''x'')]
      [\<lparr>tp_name = ''target'', tp_isVarArgs = False\<rparr>,
       \<lparr>tp_name = ''files'', tp_isVarArgs = True\<rparr>]
     = Inr [JStr ''a'', JStr ''b'', JStr ''x'']"
proof -
  let ?ps = "[\<lparr>jp_name = ''target'', jp_kind = Singular, jp_default = DNull, jp_export = False\<rparr>,
       \<lparr>jp_name = ''files'', jp_kind = Plus, jp_default = DNull, jp_export = False\<rparr>]"
  let ?ts = "[\<lparr>tp_name = ''target'', tp_isVarArgs = False\<rparr>,
       \<lparr>tp_name = ''files'', tp_isVarArgs = True\<rparr>]"
  let ?es = "[(''files'', JArr [JStr ''a'', JStr ''b'']), (''target'', JStr ''x'')]"
  have h1: "list_all (wellShaped ?ps) ?es"
    by (simp add: wellShaped_def)
  have h2: "list_all (wellShaped_text ?ts) ?es"
    by (simp add: wellShaped_text_def)
  have h3: "withinSpread 125000 ?es"
    by (simp add: withinSpread_def)
  from h1 h3 marshal_flattens [of ?ps ?es 125000 ?ts]
  have r1: "processParameters 125000 (Some ?es) ?ps = Inr (flattenValues ?es)"
    by blast
  from h2 h3 marshal_flattens [of ?ps ?es 125000 ?ts]
  have r2: "processParameters_text 125000 ?es ?ts = Inr (flattenValues ?es)"
    by blast
  have f: "flattenValues ?es = [JStr ''a'', JStr ''b'', JStr ''x'']"
    by (simp add: flattenValues_def)
  from h1 h2 h3 r1 r2 f show ?thesis
    by simp
qed













section \<open>Recipe execution: properties\<close>

text \<open>
  C6. A character of the output that arrives cut in two chunks: the child writes the two
  bytes of \<^verbatim>\<open>U+00E9\<close> and a new line, and the first chunk ends after the first byte.
  Each chunk is decoded on its own, without \<^verbatim>\<open>{stream: true}\<close>, so the result holds
  U+FFFD twice where the text of the stream, decoded as a whole, has the one character.
  Both executors do so.
\<close>

theorem cut_character_is_replaced:
  "executeRecipe
     (\<lambda>cmd. Inr \<lparr>ch_chunks = [(Stdout, [CHR 0xC3]), (Stdout, [CHR 0xA9, CHR 0x0A])], ch_code = 0\<rparr>)
     [] ''/project'' ''build'' []
     = Inr ([CHR 0xEF, CHR 0xBF, CHR 0xBD, CHR 0xEF, CHR 0xBF, CHR 0xBD, CHR 0x0A] @
            ''\<newline>Process exited with code 0'')
   \<and> executeJustTask
     (\<lambda>cmd. Inr \<lparr>ch_chunks = [(Stdout, [CHR 0xC3]), (Stdout, [CHR 0xA9, CHR 0x0A])], ch_code = 0\<rparr>)
     ''/project'' ''build'' []
     = Inr ([CHR 0xEF, CHR 0xBF, CHR 0xBD, CHR 0xEF, CHR 0xBF, CHR 0xBD, CHR 0x0A] @
            ''\<newline>Process exited with code 0'')
   \<and> textDecode ([CHR 0xC3] @ [CHR 0xA9, CHR 0x0A]) = [CHR 0xC3, CHR 0xA9, CHR 0x0A]"
  by (simp add: executeRecipe_def executeJustTask_def drain_def exitLine_def textDecode_def
      replacement_def byteOrderMark_def byte_def showInt_0)

text \<open>
  X6. When the child is spawned and every chunk it writes is ASCII text, the executor
  returns the chunks of both streams, in their order of arrival, followed by a new line
  and \<^verbatim>\<open>Process exited with code N\<close>, N being the decimal numeral of the child's exit
  status. This holds for \<^verbatim>\<open>executeRecipe\<close> and for \<^verbatim>\<open>executeJustTask\<close>. A child
  that writes \<^verbatim>\<open>ok\<close> and a new line on its standard output and exits with 0 gives
  \<^verbatim>\<open>ok\<close>, two new lines and \<^verbatim>\<open>Process exited with code 0\<close>.
\<close>

theorem executor_output_ascii:
  "(list_all (\<lambda>(s, chunk). list_all (\<lambda>b. byte b < 128) chunk) (ch_chunks c) \<and>
    spawn (recipeCommand denoArgs project name args) = Inr c \<longrightarrow>
      executeRecipe spawn denoArgs project name args =
        Inr (concat (map snd (ch_chunks c)) @ ''\<newline>Process exited with code '' @
             showInt (ch_code c))
      \<and> decimalOf (ch_code c) (showInt (ch_code c)))
   \<and> (list_all (\<lambda>(s, chunk). list_all (\<lambda>b. byte b < 128) chunk) (ch_chunks c) \<and>
      spawn (taskCommand project name args) = Inr c \<longrightarrow>
      executeJustTask spawn project name args =
        Inr (concat (map snd (ch_chunks c)) @ ''\<newline>Process exited with code '' @
             showInt (ch_code c))
      \<and> decimalOf (ch_code c) (showInt (ch_code c)))"
  by (simp add: executeRecipe_def executeJustTask_def drain_ascii exitLine_def decimalOf_showInt)

theorem executor_output_ascii_witness:
  "list_all (\<lambda>(s, chunk). list_all (\<lambda>b. byte b < 128) chunk) [(Stdout, ''ok\<newline>'')]
   \<and> executeRecipe (\<lambda>cmd. Inr \<lparr>ch_chunks = [(Stdout, ''ok\<newline>'')], ch_code = 0\<rparr>)
        [] ''/project'' ''build'' []
     = Inr ''ok\<newline>\<newline>Process exited with code 0''
   \<and> executeJustTask (\<lambda>cmd. Inr \<lparr>ch_chunks = [(Stdout, ''ok\<newline>'')], ch_code = 0\<rparr>)
        ''/project'' ''build'' []
     = Inr ''ok\<newline>\<newline>Process exited with code 0''"
proof -
  let ?c = "\<lparr>ch_chunks = [(Stdout, ''ok\<newline>'')], ch_code = 0\<rparr>"
  let ?spawn = "\<lambda>cmd :: command. Inr ?c :: thrown + child"
  have ascii: "list_all (\<lambda>(s, chunk). list_all (\<lambda>b. byte b < 128) chunk) (ch_chunks ?c)"
    by (simp add: byte_def)
  have h1: "?spawn (recipeCommand [] ''/project'' ''build'' []) = Inr ?c"
    by simp
  have h2: "?spawn (taskCommand ''/project'' ''build'' []) = Inr ?c"
    by simp
  from ascii h1 executor_output_ascii [of ?c ?spawn "[]" "''/project''" "''build''" "[]"]
  have r1: "executeRecipe ?spawn [] ''/project'' ''build'' [] =
        Inr (concat (map snd (ch_chunks ?c)) @ ''\<newline>Process exited with code '' @
             showInt (ch_code ?c))"
    by blast
  from ascii h2 executor_output_ascii [of ?c ?spawn "[]" "''/project''" "''build''" "[]"]
  have r2: "executeJustTask ?spawn ''/project'' ''build'' [] =
        Inr (concat (map snd (ch_chunks ?c)) @ ''\<newline>Process exited with code '' @
             showInt (ch_code ?c))"
    by blast
  from ascii r1 r2 show ?thesis
    by (simp add: showInt_0)
qed




text \<open>
  C8. The command string given to the login shell after \<^verbatim>\<open>-c\<close> is
  \<^verbatim>\<open>just NAME "$@"\<close>: it is made of the recipe name alone. The first four arguments of
  \<^verbatim>\<open>bash\<close> are \<^verbatim>\<open>-l\<close>, \<^verbatim>\<open>-c\<close>, that string and \<^verbatim>\<open>--\<close>, the same for any two
  marshalled argument lists, and the marshalled arguments come only after them, as
  positional arguments. Both variants build the command so.
\<close>

theorem command_string_independent_of_arguments:
  "commandString name = ''just '' @ name @ '' '' @ [CHR 0x22] @ ''$@'' @ [CHR 0x22]
   \<and> cmd_program (recipeCommand denoArgs project name args) = ''bash''
   \<and> take 4 (cmd_args (recipeCommand denoArgs project name args)) =
       [JStr ''-l'', JStr ''-c'', JStr (commandString name), JStr ''--'']
   \<and> take 4 (cmd_args (recipeCommand denoArgs project name args')) =
       take 4 (cmd_args (recipeCommand denoArgs project name args))
   \<and> drop 4 (cmd_args (recipeCommand denoArgs project name args)) = map JStr denoArgs @ args
   \<and> cmd_program (taskCommand project name args) = ''bash''
   \<and> take 4 (cmd_args (taskCommand project name args)) =
       [JStr ''-l'', JStr ''-c'', JStr (commandString name), JStr ''--'']
   \<and> take 4 (cmd_args (taskCommand project name args')) =
       take 4 (cmd_args (taskCommand project name args))
   \<and> drop 4 (cmd_args (taskCommand project name args)) = args"
  by (simp add: commandString_def recipeCommand_def taskCommand_def)

text \<open>
  C10. In the structured variant a tool call that spawns \<^verbatim>\<open>bash\<close> gives it, after
  \<^verbatim>\<open>--\<close>, the server's own command-line arguments followed by the marshalled arguments
  of the call; and reading the recipes at startup runs \<^verbatim>\<open>just\<close> with the same
  command-line arguments before \<^verbatim>\<open>--dump --dump-format json\<close>.
\<close>

theorem server_arguments_come_first:
  "execute maxSpread spawn denoArgs project name ps params =
     (case processParameters maxSpread params ps of
        Inl e \<Rightarrow> Inl (''Failed to execute '' @ name @ '': '' @ errorMessage e)
      | Inr args \<Rightarrow>
          (case spawn \<lparr>cmd_program = ''bash'',
                       cmd_args = [JStr ''-l'', JStr ''-c'', JStr (commandString name), JStr ''--'']
                                  @ map JStr denoArgs @ args,
                       cmd_cwd = project\<rparr> of
             Inl e \<Rightarrow> Inl (''Failed to execute '' @ name @ '': '' @ errorMessage e)
           | Inr c \<Rightarrow> Inr (drain (ch_chunks c) @ exitLine (ch_code c))))
   \<and> getJustRecipes run parse denoArgs project =
     (case run \<lparr>cmd_program = ''just'',
                cmd_args = map JStr denoArgs @
                           [JStr ''--dump'', JStr ''--dump-format'', JStr ''json''],
                cmd_cwd = project\<rparr> of
        Inl e \<Rightarrow> Inl 1
      | Inr stdout \<Rightarrow> (case parse stdout of Inl e \<Rightarrow> Inl 1 | Inr recipes \<Rightarrow> Inr recipes))"
  by (simp add: execute_def executeRecipe_def recipeCommand_def getJustRecipes_def dumpCommand_def
      failedToExecute_def split: sum.splits)

section \<open>Registering the tools: properties\<close>


lemma registerLoop_show: "registerLoop allowed True recipes tools = tools"
proof (induction recipes arbitrary: tools)
  case Nil
  show ?case by simp
next
  case (Cons e recipes)
  obtain n r where e: "e = (n, r)"
    by (cases e)
  show ?case
    by (simp add: e Cons.IH)
qed





end
